theory Spec2Isabelle
  imports Main
begin

section \<open>The Turing machine engine\<close>

text \<open>
  The repository holds several copies of one class, \<^verbatim>\<open>TuringMachine\<close>. The copy in
  \<^verbatim>\<open>atc-9.py\<close> (repeated in \<^verbatim>\<open>atc-11.py\<close>) has the step limit, the halted flag, the
  reject state and the tape extension; the copy in \<^verbatim>\<open>atc-6.py\<close> is the same without the
  tape extension. Both are embedded here over one record.

  A Python \<^verbatim>\<open>str\<close> is a \<^typ>\<open>string\<close>, one \<^typ>\<open>char\<close> per character. The tape is a
  Python list of strings: \<^verbatim>\<open>list(input_string)\<close> gives one-character strings, a
  transition may write any string. Python's \<^verbatim>\<open>int\<close> is \<^typ>\<open>int\<close>. The transition table
  is a dict from the key \<^verbatim>\<open>f"{state}_{symbol}"\<close> to a three-element list
  \<^verbatim>\<open>[next_state, write_symbol, direction]\<close>, here a map into triples.
\<close>

subsection \<open>Data\<close>

type_synonym trace_entry = "string \<times> string \<times> string \<times> string \<times> string"

record TuringMachine =
  states :: "string list"
  tape_alphabet :: "string list"
  start_state :: string
  accept_state :: string
  reject_state :: string
  transitions :: "string \<rightharpoonup> (string \<times> string \<times> string)"
  max_steps :: int
  tape :: "string list"
  head :: int
  current_state :: string
  steps :: int
  transition_trace :: "trace_entry list"
  halted :: bool

text \<open>The only exception the engine can raise is the one of a list access out of range.\<close>

datatype error = IndexError

text \<open>
  The messages that \<^verbatim>\<open>step\<close> formats, each with the values it interpolates:
  the step limit; nothing; state and symbol; step count, state, head and the tape joined
  and stripped of \<^verbatim>\<open>_\<close>.
\<close>

datatype message =
    StepLimitReached int
  | AlreadyHalted
  | NoTransition string string
  | StepReport int string int string

type_synonym step_result = "TuringMachine \<times> (error + bool \<times> message)"

subsection \<open>Python list access\<close>

text \<open>
  \<^verbatim>\<open>xs[i]\<close> and \<^verbatim>\<open>xs[i] = v\<close>: a negative index counts from the end, an index out of
  range raises \<^verbatim>\<open>IndexError\<close>.
\<close>

definition tape_get :: "string list \<Rightarrow> int \<Rightarrow> error + string" where
  "tape_get xs i =
     (let n = int (length xs); j = (if i < 0 then i + n else i)
      in if 0 \<le> j \<and> j < n then Inr (xs ! nat j) else Inl IndexError)"

definition tape_set :: "string list \<Rightarrow> int \<Rightarrow> string \<Rightarrow> error + string list" where
  "tape_set xs i v =
     (let n = int (length xs); j = (if i < 0 then i + n else i)
      in if 0 \<le> j \<and> j < n then Inr (xs[nat j := v]) else Inl IndexError)"

text \<open>The same access on the trace, a list of entries: \<^verbatim>\<open>transition_trace[i]\<close>.\<close>

definition trace_get :: "trace_entry list \<Rightarrow> int \<Rightarrow> error + trace_entry" where
  "trace_get xs i =
     (let n = int (length xs); j = (if i < 0 then i + n else i)
      in if 0 \<le> j \<and> j < n then Inr (xs ! nat j) else Inl IndexError)"

text \<open>\<^verbatim>\<open>s.strip('_')\<close>: the underscores at both ends of \<open>s\<close> removed.\<close>

definition strip_underscore :: "string \<Rightarrow> string" where
  "strip_underscore s =
     rev (dropWhile (\<lambda>c. c = CHR ''_'') (rev (dropWhile (\<lambda>c. c = CHR ''_'') s)))"

subsection \<open>reset and the constructor\<close>

text \<open>\<^verbatim>\<open>reset\<close>, atc-9.py lines 17 to 23 (atc-6.py lines 15 to 21).\<close>

definition reset :: "TuringMachine \<Rightarrow> string \<Rightarrow> TuringMachine" where
  "reset tm input_string =
     tm\<lparr>tape := map (\<lambda>c. [c]) input_string @ replicate 50 ''_'',
        head := 0,
        current_state := start_state tm,
        steps := 0,
        transition_trace := [],
        halted := False\<rparr>"

text \<open>
  \<^verbatim>\<open>__init__\<close>: the definition fields are stored and \<^verbatim>\<open>reset\<close> sets the six run
  fields, which do not exist before; the values given to them here are overwritten.
\<close>

definition TuringMachine_init ::
  "string list \<Rightarrow> string list \<Rightarrow> string \<Rightarrow> string \<Rightarrow> string \<Rightarrow>
   (string \<rightharpoonup> (string \<times> string \<times> string)) \<Rightarrow> string \<Rightarrow> int \<Rightarrow> TuringMachine" where
  "TuringMachine_init sts alphabet start accept reject table input_string maxs =
     reset \<lparr>states = sts, tape_alphabet = alphabet, start_state = start,
            accept_state = accept, reject_state = reject, transitions = table,
            max_steps = maxs, tape = [], head = 0, current_state = [], steps = 0,
            transition_trace = [], halted = False\<rparr> input_string"

subsection \<open>step\<close>

text \<open>
  The tape extension, atc-9.py lines 33 to 37: two independent \<^verbatim>\<open>if\<close>s, the second
  reading the head the first left.
\<close>

definition extend_tape :: "TuringMachine \<Rightarrow> TuringMachine" where
  "extend_tape tm =
     (let tm1 = (if int (length (tape tm)) \<le> head tm
                 then tm\<lparr>tape := tape tm @ [''_'']\<rparr> else tm)
      in if head tm1 < 0 then tm1\<lparr>tape := ''_'' # tape tm1, head := 0\<rparr> else tm1)"

text \<open>
  The read, the lookup and the transition: atc-9.py lines 39 to 62, and the same text in
  atc-6.py lines 31 to 54. An exception leaves the object as it was mutated so far, so
  the state is returned beside the error.
\<close>

definition transition_phase :: "TuringMachine \<Rightarrow> step_result" where
  "transition_phase tm =
     (case tape_get (tape tm) (head tm) of
        Inl e \<Rightarrow> (tm, Inl e)
      | Inr symbol \<Rightarrow>
          (case transitions tm (current_state tm @ ''_'' @ symbol) of
             None \<Rightarrow>
               (tm\<lparr>halted := True\<rparr>, Inr (False, NoTransition (current_state tm) symbol))
           | Some (next_state, write_symbol, direction) \<Rightarrow>
               (let tm1 = tm\<lparr>transition_trace := transition_trace tm @
                              [(current_state tm, symbol, next_state, write_symbol, direction)]\<rparr>
                in case tape_set (tape tm1) (head tm1) write_symbol of
                     Inl e \<Rightarrow> (tm1, Inl e)
                   | Inr tape' \<Rightarrow>
                       (let tm2 = tm1\<lparr>tape := tape', current_state := next_state\<rparr>;
                            tm3 = (if direction = ''R'' then tm2\<lparr>head := head tm2 + 1\<rparr>
                                   else if direction = ''L'' then tm2\<lparr>head := head tm2 - 1\<rparr>
                                   else tm2);
                            tm4 = tm3\<lparr>steps := steps tm3 + 1\<rparr>;
                            tm5 = (if current_state tm4 \<in> set [accept_state tm4, reject_state tm4]
                                   then tm4\<lparr>halted := True\<rparr> else tm4)
                        in (tm5, Inr (\<not> halted tm5,
                                      StepReport (steps tm5) (current_state tm5) (head tm5)
                                        (strip_underscore (concat (tape tm5)))))))))"

text \<open>\<^verbatim>\<open>step\<close> of atc-9.py, lines 25 to 62.\<close>

definition step :: "TuringMachine \<Rightarrow> step_result" where
  "step tm =
     (if max_steps tm \<le> steps tm
      then (tm\<lparr>halted := True\<rparr>, Inr (False, StepLimitReached (max_steps tm)))
      else if halted tm then (tm, Inr (False, AlreadyHalted))
      else transition_phase (extend_tape tm))"

text \<open>\<^verbatim>\<open>step\<close> of atc-6.py, lines 23 to 54: no tape extension.\<close>

definition step_atc6 :: "TuringMachine \<Rightarrow> step_result" where
  "step_atc6 tm =
     (if max_steps tm \<le> steps tm
      then (tm\<lparr>halted := True\<rparr>, Inr (False, StepLimitReached (max_steps tm)))
      else if halted tm then (tm, Inr (False, AlreadyHalted))
      else transition_phase tm)"

text \<open>The flag a call returns; a call that raises returns none.\<close>

definition continues :: "step_result \<Rightarrow> bool option" where
  "continues r = (case snd r of Inl e \<Rightarrow> None | Inr (c, msg) \<Rightarrow> Some c)"

text \<open>\<open>n\<close> calls of \<^verbatim>\<open>step\<close> one after the other on the same object.\<close>

fun step_calls :: "nat \<Rightarrow> TuringMachine \<Rightarrow> TuringMachine" where
  "step_calls 0 tm = tm"
| "step_calls (Suc n) tm = step_calls n (fst (step tm))"

subsection \<open>Verdicts\<close>

text \<open>\<^verbatim>\<open>is_accepted\<close> and \<^verbatim>\<open>is_rejected\<close>, atc-9.py lines 64 to 68.\<close>

definition is_accepted :: "TuringMachine \<Rightarrow> bool" where
  "is_accepted tm = (current_state tm = accept_state tm)"

definition is_rejected :: "TuringMachine \<Rightarrow> bool" where
  "is_rejected tm = (current_state tm = reject_state tm)"

datatype verdict = Accepted | Rejected | StepLimitExceeded | StuckNoTransition

text \<open>The verdict the driver of atc-6.py shows, lines 133 to 141.\<close>

definition verdict_of :: "TuringMachine \<Rightarrow> verdict" where
  "verdict_of tm =
     (if is_accepted tm then Accepted
      else if is_rejected tm then Rejected
      else if max_steps tm \<le> steps tm then StepLimitExceeded
      else StuckNoTransition)"

subsection \<open>The driver loops\<close>

text \<open>
  The engine has no method that runs it to the end; its caller does, a function
  \<^verbatim>\<open>run_tm_step\<close> that calls \<^verbatim>\<open>step\<close> when the machine is not halted and schedules
  itself again while \<^verbatim>\<open>cont and not tm.halted\<close>.

  \<open>run\<close> is \<^verbatim>\<open>run_tm_step\<close> of atc-9.py, lines 212 to 223. After each call of
  \<^verbatim>\<open>step\<close> it reads \<^verbatim>\<open>tm.transition_trace[-1]\<close> to display it (line 216), which
  raises \<^verbatim>\<open>IndexError\<close> while the trace is empty. \<open>run_atc6\<close> is \<^verbatim>\<open>run_tm_step\<close> of
  atc-6.py, lines 123 to 131, over \<^verbatim>\<open>step\<close> of atc-6.py; it reads the trace only
  by \<^verbatim>\<open>join\<close>, which cannot fail. The writes to the widgets are left out of both.
  The result is the object when the loop ends and the exception that ended it, if one
  did. The loops end because every call that continues adds one to \<^verbatim>\<open>steps\<close>, below
  \<^verbatim>\<open>max_steps\<close>.
\<close>

function run :: "TuringMachine \<Rightarrow> TuringMachine \<times> error option" where
  "run tm =
     (if \<not> halted tm then
        (case step tm of
           (tm', Inl e) \<Rightarrow> (tm', Some e)
         | (tm', Inr (cont, msg)) \<Rightarrow>
             (case trace_get (transition_trace tm') (- 1) of
                Inl e \<Rightarrow> (tm', Some e)
              | Inr entry \<Rightarrow>
                  if cont \<and> \<not> halted tm' then run tm' else (tm', None)))
      else (tm, None))"
  by pat_completeness auto
termination
proof (relation "measure (\<lambda>tm. nat (max_steps tm - steps tm))")
  show "wf (measure (\<lambda>tm. nat (max_steps tm - steps tm)))" by simp
next
  fix tm tm' :: TuringMachine and r cm cont msg entry
  assume "\<not> halted tm" "(tm', r) = step tm" "r = Inr cm" "(cont, msg) = cm"
    "trace_get (transition_trace tm') (- 1) = Inr entry"
    "cont \<and> \<not> halted tm'"
  then have below: "\<not> max_steps tm \<le> steps tm"
    and call: "transition_phase (extend_tape tm) = (tm', Inr (True, msg))"
    by (auto simp: step_def split: if_splits)
  have "steps (extend_tape tm) = steps tm" "max_steps (extend_tape tm) = max_steps tm"
    by (simp_all add: extend_tape_def Let_def)
  moreover from call
  have "steps tm' = steps (extend_tape tm) + 1 \<and> max_steps tm' = max_steps (extend_tape tm)"
    by (auto simp: transition_phase_def Let_def
        split: sum.splits option.splits prod.splits if_splits)
  ultimately show "(tm', tm) \<in> measure (\<lambda>tm. nat (max_steps tm - steps tm))"
    using below by simp
qed

function run_atc6 :: "TuringMachine \<Rightarrow> TuringMachine \<times> error option" where
  "run_atc6 tm =
     (if \<not> halted tm then
        (case step_atc6 tm of
           (tm', Inl e) \<Rightarrow> (tm', Some e)
         | (tm', Inr (cont, msg)) \<Rightarrow>
             if cont \<and> \<not> halted tm' then run_atc6 tm' else (tm', None))
      else (tm, None))"
  by pat_completeness auto
termination
proof (relation "measure (\<lambda>tm. nat (max_steps tm - steps tm))")
  show "wf (measure (\<lambda>tm. nat (max_steps tm - steps tm)))" by simp
next
  fix tm tm' :: TuringMachine and r cm cont msg
  assume "\<not> halted tm" "(tm', r) = step_atc6 tm" "r = Inr cm" "(cont, msg) = cm"
    "cont \<and> \<not> halted tm'"
  then have below: "\<not> max_steps tm \<le> steps tm"
    and call: "transition_phase tm = (tm', Inr (True, msg))"
    by (auto simp: step_atc6_def split: if_splits)
  from call have "steps tm' = steps tm + 1 \<and> max_steps tm' = max_steps tm"
    by (auto simp: transition_phase_def Let_def
        split: sum.splits option.splits prod.splits if_splits)
  then show "(tm', tm) \<in> measure (\<lambda>tm. nat (max_steps tm - steps tm))"
    using below by simp
qed


fun is_step_limit :: "message option \<Rightarrow> bool" where
  "is_step_limit (Some (StepLimitReached k)) = True"
| "is_step_limit cause = False"

fun is_lookup_miss :: "message option \<Rightarrow> bool" where
  "is_lookup_miss (Some (NoTransition q symbol)) = True"
| "is_lookup_miss cause = False"

text \<open>
  The four verdicts in the words of the specification, for the state \<open>tm\<close> of a halted
  run and the message \<open>cause\<close> of the call that halted it: accepted if and only if the
  current state is the accept state; rejected if and only if it is the reject state;
  step limit exceeded if and only if the machine halted because the step count reached
  the limit, without reaching the accept or the reject state; stuck if and only if it
  halted because of a lookup miss and the current state is neither of the two.
  \<open>verdicts_holding\<close> lists the verdicts that hold.
\<close>

definition verdict_holds :: "verdict \<Rightarrow> TuringMachine \<Rightarrow> message option \<Rightarrow> bool" where
  "verdict_holds v tm cause =
     (case v of
        Accepted \<Rightarrow> is_accepted tm
      | Rejected \<Rightarrow> is_rejected tm
      | StepLimitExceeded \<Rightarrow>
          is_step_limit cause \<and> \<not> is_accepted tm \<and> \<not> is_rejected tm
      | StuckNoTransition \<Rightarrow>
          is_lookup_miss cause \<and> \<not> is_accepted tm \<and> \<not> is_rejected tm)"

definition verdicts_holding :: "TuringMachine \<Rightarrow> message option \<Rightarrow> verdict list" where
  "verdicts_holding tm cause =
     filter (\<lambda>v. verdict_holds v tm cause)
       [Accepted, Rejected, StepLimitExceeded, StuckNoTransition]"

text \<open>
  The head is on the tape or one cell beyond one of its ends: what the tape extension
  of \<^verbatim>\<open>step\<close> repairs.
\<close>

definition head_near_tape :: "TuringMachine \<Rightarrow> bool" where
  "head_near_tape tm = (- 1 \<le> head tm \<and> head tm \<le> int (length (tape tm)))"

subsection \<open>Machines\<close>

text \<open>
  The transition tables used below. \<open>flip_table\<close> is ``Flip 0 to 1'' of atc-1.py,
  atc-3.py and atc-5.py; \<open>flip_table_atc6\<close> is the one of atc-6.py, with its third
  entry; \<open>unary_increment_table\<close> is ``Unary Increment'' of atc-9.py, whose reject
  state is its accept state; \<open>loop_right_table\<close> is ``Halting Problem'' of
  atc-5.py; \<open>loop_left_table\<close> is ``Halting Problem (Undecidable)'' of
  atc-3.py. \<open>loop_zero_table\<close> has the first entry of these alone, and
  \<open>left_then_stuck_table\<close> is a one-entry table that moves left.
\<close>

definition flip_table :: "string \<rightharpoonup> (string \<times> string \<times> string)" where
  "flip_table = map_of
     [(''q0_0'', (''q1'', ''1'', ''R'')),
      (''q1__'', (''halt'', ''_'', ''N''))]"

definition flip_table_atc6 :: "string \<rightharpoonup> (string \<times> string \<times> string)" where
  "flip_table_atc6 = map_of
     [(''q0_0'', (''q1'', ''1'', ''R'')),
      (''q1__'', (''halt'', ''_'', ''N'')),
      (''q1_0'', (''reject'', ''0'', ''N''))]"

definition unary_increment_table :: "string \<rightharpoonup> (string \<times> string \<times> string)" where
  "unary_increment_table = map_of
     [(''q0_1'', (''q0'', ''1'', ''R'')),
      (''q0__'', (''halt'', ''1'', ''N''))]"

definition loop_right_table :: "string \<rightharpoonup> (string \<times> string \<times> string)" where
  "loop_right_table = map_of
     [(''loop_0'', (''loop'', ''0'', ''R'')),
      (''loop__'', (''loop'', ''_'', ''R''))]"

definition loop_left_table :: "string \<rightharpoonup> (string \<times> string \<times> string)" where
  "loop_left_table = map_of
     [(''loop_0'', (''loop'', ''0'', ''R'')),
      (''loop__'', (''loop'', ''_'', ''L''))]"

definition loop_zero_table :: "string \<rightharpoonup> (string \<times> string \<times> string)" where
  "loop_zero_table = map_of [(''loop_0'', (''loop'', ''0'', ''R''))]"

definition left_then_stuck_table :: "string \<rightharpoonup> (string \<times> string \<times> string)" where
  "left_then_stuck_table = map_of [(''q0_0'', (''q1'', ''0'', ''L''))]"

text \<open>
  The objects that \<^verbatim>\<open>simulate_tm_gui\<close> builds (atc-9.py lines 196 to 205, atc-6.py
  lines 107 to 116), with \<^verbatim>\<open>max_steps=1000\<close>.
\<close>

definition unary_increment :: "string \<Rightarrow> TuringMachine" where
  "unary_increment input_string =
     TuringMachine_init [''q0'', ''halt''] [''1'', ''_''] ''q0'' ''halt'' ''halt''
       unary_increment_table input_string 1000"

definition flip_atc6 :: "string \<Rightarrow> TuringMachine" where
  "flip_atc6 input_string =
     TuringMachine_init [''q0'', ''q1'', ''halt'', ''reject''] [''0'', ''1'', ''_'']
       ''q0'' ''halt'' ''reject'' flip_table_atc6 input_string 1000"

text \<open>
  The machine of the third scenario of the specification, with a reject state that no
  entry of its table names, for an input and a step limit.
\<close>

definition loop_zero :: "string \<Rightarrow> int \<Rightarrow> TuringMachine" where
  "loop_zero input_string maxs =
     TuringMachine_init [''loop''] [''0'', ''_''] ''loop'' ''halt'' ''reject''
       loop_zero_table input_string maxs"

text \<open>
  The two looping tables as machines with the reject state \<^verbatim>\<open>reject\<close>, and the machine
  of the table that moves left.
\<close>

definition loop_left :: "string \<Rightarrow> int \<Rightarrow> TuringMachine" where
  "loop_left input_string maxs =
     TuringMachine_init [''loop''] [''0'', ''_''] ''loop'' ''halt'' ''reject''
       loop_left_table input_string maxs"

definition loop_right :: "string \<Rightarrow> int \<Rightarrow> TuringMachine" where
  "loop_right input_string maxs =
     TuringMachine_init [''loop''] [''0'', ''1'', ''_''] ''loop'' ''halt'' ''reject''
       loop_right_table input_string maxs"

definition left_then_stuck :: "string \<Rightarrow> TuringMachine" where
  "left_then_stuck input_string =
     TuringMachine_init [''q0'', ''q1'', ''halt''] [''0'', ''_''] ''q0'' ''halt'' ''reject''
       left_then_stuck_table input_string 1000"

section \<open>Properties\<close>

lemmas machine_defs =
  TuringMachine_init_def reset_def unary_increment_def flip_atc6_def loop_zero_def
  loop_left_def loop_right_def left_then_stuck_def

lemmas engine_defs =
  step_def extend_tape_def transition_phase_def tape_get_def tape_set_def Let_def

declare run.simps [simp del] run_atc6.simps [simp del]

subsection \<open>Facts about one call\<close>

lemma tape_set_after_get:
  "tape_get xs i = Inr s \<Longrightarrow>
   tape_set xs i v = Inr (xs[nat (if i < 0 then i + int (length xs) else i) := v])"
  by (simp add: tape_get_def tape_set_def Let_def split: if_splits)

lemma extend_tape_frame:
  "states (extend_tape tm) = states tm"
  "tape_alphabet (extend_tape tm) = tape_alphabet tm"
  "start_state (extend_tape tm) = start_state tm"
  "accept_state (extend_tape tm) = accept_state tm"
  "reject_state (extend_tape tm) = reject_state tm"
  "transitions (extend_tape tm) = transitions tm"
  "max_steps (extend_tape tm) = max_steps tm"
  "current_state (extend_tape tm) = current_state tm"
  "steps (extend_tape tm) = steps tm"
  "transition_trace (extend_tape tm) = transition_trace tm"
  "halted (extend_tape tm) = halted tm"
  by (simp_all add: extend_tape_def Let_def)

lemma transition_phase_frame:
  "states (fst (transition_phase tm)) = states tm"
  "tape_alphabet (fst (transition_phase tm)) = tape_alphabet tm"
  "start_state (fst (transition_phase tm)) = start_state tm"
  "accept_state (fst (transition_phase tm)) = accept_state tm"
  "reject_state (fst (transition_phase tm)) = reject_state tm"
  "transitions (fst (transition_phase tm)) = transitions tm"
  "max_steps (fst (transition_phase tm)) = max_steps tm"
  by (simp_all add: transition_phase_def Let_def split: sum.splits option.splits prod.splits)

lemma step_frame:
  "states (fst (step tm)) = states tm"
  "tape_alphabet (fst (step tm)) = tape_alphabet tm"
  "start_state (fst (step tm)) = start_state tm"
  "accept_state (fst (step tm)) = accept_state tm"
  "reject_state (fst (step tm)) = reject_state tm"
  "transitions (fst (step tm)) = transitions tm"
  "max_steps (fst (step tm)) = max_steps tm"
  by (simp_all add: step_def transition_phase_frame extend_tape_frame)

lemma transition_phase_accounting:
  "int (length (transition_trace (fst (transition_phase tm)))) - steps (fst (transition_phase tm)) =
   int (length (transition_trace tm)) - steps tm"
  "steps (fst (transition_phase tm)) \<le> steps tm + 1"
  by (cases "tape_get (tape tm) (head tm)";
      simp add: transition_phase_def Let_def tape_set_after_get split: option.splits prod.splits)+

lemma step_accounting:
  "int (length (transition_trace (fst (step tm)))) - steps (fst (step tm)) =
   int (length (transition_trace tm)) - steps tm"
  using transition_phase_accounting(1) [of "extend_tape tm"]
  by (simp add: step_def extend_tape_frame)

lemma step_bound:
  "steps tm \<le> max_steps tm \<Longrightarrow> steps (fst (step tm)) \<le> max_steps tm"
  using transition_phase_accounting(2) [of "extend_tape tm"]
  by (simp add: step_def extend_tape_frame)

lemma step_calls_accounting:
  "int (length (transition_trace (step_calls n tm))) - steps (step_calls n tm) =
   int (length (transition_trace tm)) - steps tm"
  by (induction n arbitrary: tm) (simp_all add: step_accounting)

lemma step_calls_bound:
  "steps tm \<le> max_steps tm \<Longrightarrow> steps (step_calls n tm) \<le> max_steps tm"
proof (induction n arbitrary: tm)
  case 0 then show ?case by simp
next
  case (Suc n)
  from step_bound [OF Suc.prems] Suc.IH [of "fst (step tm)"] show ?case
    by (simp add: step_frame)
qed

lemma trace_get_last:
  "trace_get xs (- 1) = (if xs = [] then Inl IndexError else Inr (last xs))"
  by (cases "xs = []") (simp_all add: trace_get_def Let_def last_conv_nth nat_diff_distrib')

lemma run_is_step_calls: "\<exists>n. fst (run tm) = step_calls n tm"
proof (induction tm rule: run.induct)
  case (1 tm)
  show ?case
  proof (cases "halted tm")
    case True
    then have "fst (run tm) = step_calls 0 tm" by (simp add: run.simps)
    then show ?thesis by blast
  next
    case False
    obtain tm' r where st: "step tm = (tm', r)" by (cases "step tm")
    have once: "fst (run tm) = tm' \<Longrightarrow> ?thesis"
    proof -
      assume "fst (run tm) = tm'"
      with st have "fst (run tm) = step_calls (Suc 0) tm" by simp
      then show ?thesis by blast
    qed
    show ?thesis
    proof (cases r)
      case (Inl e)
      with False st show ?thesis by (intro once) (simp add: run.simps)
    next
      case (Inr cm)
      obtain cont msg where cm: "cm = (cont, msg)" by (cases cm)
      show ?thesis
      proof (cases "trace_get (transition_trace tm') (- 1)")
        case shown: (Inl e)
        with False st Inr cm show ?thesis by (intro once) (simp add: run.simps)
      next
        case shown: (Inr entry)
        show ?thesis
        proof (cases "cont \<and> \<not> halted tm'")
          case True
          with False st Inr cm shown have r: "run tm = run tm'" by (simp add: run.simps)
          from "1.IH" [OF False st [symmetric] Inr cm [symmetric] shown True]
          obtain n where "fst (run tm') = step_calls n tm'" by blast
          with r st have "fst (run tm) = step_calls (Suc n) tm" by simp
          then show ?thesis by blast
        next
          case nc: False
          with False st Inr cm shown show ?thesis
            by (intro once) (auto simp add: run.simps)
        qed
      qed
    qed
  qed
qed

lemma step_calls_numeral:
  "step_calls (numeral k) tm = step_calls (pred_numeral k) (fst (step tm))"
  by (simp add: numeral_eq_Suc)

subsection \<open>A halted machine stays as it is\<close>

lemma step_halted:
  "halted tm \<Longrightarrow> step tm = (tm, Inr (False,
     if max_steps tm \<le> steps tm then StepLimitReached (max_steps tm) else AlreadyHalted))"
  by (simp add: step_def)


text \<open>
  C1. Once \<^verbatim>\<open>halted\<close> is set, any number \<open>n\<close> of further calls of \<^verbatim>\<open>step\<close> leaves the
  whole object as it is (so the current state, the head, the tape and the step count),
  and the call after them again changes nothing and returns \<^verbatim>\<open>False\<close> as its flag.
\<close>

theorem halted_is_terminal:
  "halted tm \<Longrightarrow>
   step_calls n tm = tm \<and> fst (step (step_calls n tm)) = tm \<and>
   continues (step (step_calls n tm)) = Some False"
  by (induction n) (simp_all add: step_halted continues_def)

theorem halted_is_terminal_witness:
  "halted (step_calls 2 (unary_increment ''1'')) \<and>
   step_calls 3 (step_calls 2 (unary_increment ''1'')) = step_calls 2 (unary_increment ''1'') \<and>
   continues (step (step_calls 3 (step_calls 2 (unary_increment ''1'')))) = Some False"
proof -
  have h: "halted (step_calls 2 (unary_increment ''1''))"
    by code_simp
  from halted_is_terminal [OF h, of 3] h show ?thesis
    by blast
qed

subsection \<open>reset\<close>

text \<open>
  C7. For every input string, the empty one too, \<^verbatim>\<open>reset\<close> returns (it is total and
  raises nothing) with the tape holding the characters of the input followed by 50
  blanks, the head at 0, where it reads the first character or a blank, the current
  state the start state, no steps, no trace, not halted, and the definition fields
  as they were.
\<close>

theorem reset_establishes:
  "tape (reset tm input_string) = map (\<lambda>c. [c]) input_string @ replicate 50 ''_'' \<and>
   length (tape (reset tm input_string)) = length input_string + 50 \<and>
   tape_get (tape (reset tm input_string)) (head (reset tm input_string)) =
     Inr (if input_string = [] then ''_'' else [hd input_string]) \<and>
   head (reset tm input_string) = 0 \<and>
   current_state (reset tm input_string) = start_state tm \<and>
   steps (reset tm input_string) = 0 \<and>
   \<not> halted (reset tm input_string) \<and>
   transition_trace (reset tm input_string) = [] \<and>
   reset tm input_string =
     \<lparr>states = states tm, tape_alphabet = tape_alphabet tm, start_state = start_state tm,
      accept_state = accept_state tm, reject_state = reject_state tm,
      transitions = transitions tm, max_steps = max_steps tm,
      tape = map (\<lambda>c. [c]) input_string @ replicate 50 ''_'', head = 0,
      current_state = start_state tm, steps = 0, transition_trace = [], halted = False\<rparr>"
  by (cases input_string) (simp_all add: reset_def tape_get_def Let_def)

subsection \<open>Tape accesses stay in range\<close>

lemma extend_tape_in_bounds:
  "head_near_tape tm \<Longrightarrow>
   0 \<le> head (extend_tape tm) \<and> head (extend_tape tm) < int (length (tape (extend_tape tm)))"
  by (auto simp: head_near_tape_def extend_tape_def Let_def)

lemma tape_access_in_bounds:
  "0 \<le> i \<Longrightarrow> i < int (length xs) \<Longrightarrow>
   tape_get xs i = Inr (xs ! nat i) \<and> tape_set xs i v = Inr (xs[nat i := v])"
  by (simp add: tape_get_def tape_set_def Let_def)

lemma transition_phase_in_bounds:
  assumes "0 \<le> head tm" "head tm < int (length (tape tm))"
  shows "head_near_tape (fst (transition_phase tm)) \<and> (\<exists>r. snd (transition_phase tm) = Inr r)"
  using assms tape_access_in_bounds [OF assms]
  by (auto simp: transition_phase_def Let_def head_near_tape_def split: option.splits prod.splits)

lemma step_in_bounds:
  assumes "head_near_tape tm"
  shows "head_near_tape (fst (step tm)) \<and> (\<exists>r. snd (step tm) = Inr r)"
proof -
  from extend_tape_in_bounds [OF assms]
  have "head_near_tape (fst (transition_phase (extend_tape tm))) \<and>
        (\<exists>r. snd (transition_phase (extend_tape tm)) = Inr r)"
    by (intro transition_phase_in_bounds) simp_all
  with assms show ?thesis
    by (auto simp: step_def head_near_tape_def)
qed

lemma reset_in_bounds: "head_near_tape (reset tm input_string)"
  by (simp add: head_near_tape_def reset_def)

lemma step_calls_in_bounds: "head_near_tape tm \<Longrightarrow> head_near_tape (step_calls n tm)"
  by (induction n arbitrary: tm) (simp_all add: step_in_bounds)

lemma transition_phase_in_range:
  assumes "0 \<le> head tm" "head tm < int (length (tape tm))"
  shows "transition_phase tm =
    (case transitions tm (current_state tm @ ''_'' @ tape tm ! nat (head tm)) of
       None \<Rightarrow> (tm\<lparr>halted := True\<rparr>,
                Inr (False, NoTransition (current_state tm) (tape tm ! nat (head tm))))
     | Some (q, w, d) \<Rightarrow>
         (tm\<lparr>transition_trace := transition_trace tm @
                 [(current_state tm, tape tm ! nat (head tm), q, w, d)],
              tape := (tape tm)[nat (head tm) := w],
              current_state := q,
              head := (if d = ''R'' then head tm + 1 else if d = ''L'' then head tm - 1
                       else head tm),
              steps := steps tm + 1,
              halted := (halted tm \<or> q = accept_state tm \<or> q = reject_state tm)\<rparr>,
          Inr (\<not> (halted tm \<or> q = accept_state tm \<or> q = reject_state tm),
               StepReport (steps tm + 1) q
                 (if d = ''R'' then head tm + 1 else if d = ''L'' then head tm - 1 else head tm)
                 (strip_underscore (concat ((tape tm)[nat (head tm) := w]))))))"
  using tape_access_in_bounds [OF assms]
  by (auto simp: transition_phase_def Let_def split: option.splits)

lemmas eval_defs = step_def extend_tape_def Let_def transition_phase_in_range nth_append
  step_calls_numeral trace_get_last

text \<open>
  C9. After \<^verbatim>\<open>reset\<close> and any number \<open>n\<close> of calls of \<^verbatim>\<open>step\<close>, the head that the tape
  extension leaves is an index of the tape, \<open>0 \<le> head < length tape\<close>, so the read and
  the write of the next call are in range and the call does not raise \<^verbatim>\<open>IndexError\<close>.
\<close>

theorem tape_access_never_out_of_range:
  "0 \<le> head (extend_tape (step_calls n (reset tm input_string))) \<and>
   head (extend_tape (step_calls n (reset tm input_string)))
     < int (length (tape (extend_tape (step_calls n (reset tm input_string))))) \<and>
   tape_get (tape (extend_tape (step_calls n (reset tm input_string))))
            (head (extend_tape (step_calls n (reset tm input_string)))) \<noteq> Inl IndexError \<and>
   tape_set (tape (extend_tape (step_calls n (reset tm input_string))))
            (head (extend_tape (step_calls n (reset tm input_string)))) w \<noteq> Inl IndexError \<and>
   snd (step (step_calls n (reset tm input_string))) \<noteq> Inl IndexError"
proof -
  let ?s = "step_calls n (reset tm input_string)"
  have near: "head_near_tape ?s"
    by (rule step_calls_in_bounds) (rule reset_in_bounds)
  from extend_tape_in_bounds [OF near]
  have b: "0 \<le> head (extend_tape ?s)" "head (extend_tape ?s) < int (length (tape (extend_tape ?s)))"
    by simp_all
  from step_in_bounds [OF near] have "snd (step ?s) \<noteq> Inl IndexError" by auto
  with b tape_access_in_bounds [OF b] show ?thesis by simp
qed

subsection \<open>Step accounting\<close>

lemma step_flag_is_not_halted:
  "step tm = (tm', Inr (cont, msg)) \<Longrightarrow> cont = (\<not> halted tm')"
  by (auto simp: step_def transition_phase_def Let_def
      split: if_splits sum.splits option.splits prod.splits)

lemma step_halts_or_traces:
  "snd (step tm) = Inr r \<Longrightarrow> halted (fst (step tm)) \<or> transition_trace (fst (step tm)) \<noteq> []"
  by (auto simp: step_def transition_phase_def Let_def
      split: if_splits sum.splits option.splits prod.splits)

lemma run_ends_halted:
  "head_near_tape tm \<Longrightarrow> \<not> halted tm \<Longrightarrow>
   halted (fst (run tm)) \<and>
   snd (run tm) = (if transition_trace (fst (run tm)) = [] then Some IndexError else None)"
proof (induction tm rule: run.induct)
  case (1 tm)
  from "1.prems" have nh: "\<not> halted tm" by simp
  from step_in_bounds [of tm] "1.prems"
  obtain tm' cont msg where st: "step tm = (tm', Inr (cont, msg))" and near: "head_near_tape tm'"
    by (cases "step tm") auto
  from step_flag_is_not_halted [OF st] have c: "cont = (\<not> halted tm')" .
  from step_halts_or_traces [of tm "(cont, msg)"] st
  have ht: "halted tm' \<or> transition_trace tm' \<noteq> []" by simp
  show ?case
  proof (cases "transition_trace tm' = []")
    case True
    with ht have "halted tm'" by simp
    with nh st True show ?thesis by (simp add: run.simps trace_get_last)
  next
    case False
    then have shown: "trace_get (transition_trace tm') (- 1) = Inr (last (transition_trace tm'))"
      by (simp add: trace_get_last)
    show ?thesis
    proof (cases "halted tm'")
      case True
      with nh st c False show ?thesis by (simp add: run.simps trace_get_last)
    next
      case h: False
      with c have t: "cont \<and> \<not> halted tm'" by simp
      with nh st shown have r: "run tm = run tm'" by (simp add: run.simps)
      from "1.IH" [OF nh st [symmetric] refl refl shown t near h] r show ?thesis by simp
    qed
  qed
qed

text \<open>
  C3. For a machine whose step limit is not negative and any input, the driver loop
  started after \<^verbatim>\<open>reset\<close> ends with the machine halted; when it has ended, whether
  normally or by the \<^verbatim>\<open>IndexError\<close> of its display, which it raises exactly when the
  trace is empty, the step count is the number of entries of the trace and is at most
  the limit; and the same two facts hold after any number \<open>n\<close> of calls of \<^verbatim>\<open>step\<close>, so
  at every point of the run.
\<close>

theorem steps_count_the_trace:
  "0 \<le> max_steps tm \<Longrightarrow>
   halted (fst (run (reset tm input_string))) \<and>
   snd (run (reset tm input_string)) =
     (if transition_trace (fst (run (reset tm input_string))) = [] then Some IndexError
      else None) \<and>
   steps (fst (run (reset tm input_string))) =
     int (length (transition_trace (fst (run (reset tm input_string))))) \<and>
   steps (fst (run (reset tm input_string))) \<le> max_steps tm \<and>
   steps (step_calls n (reset tm input_string)) =
     int (length (transition_trace (step_calls n (reset tm input_string)))) \<and>
   steps (step_calls n (reset tm input_string)) \<le> max_steps tm"
proof -
  assume m: "0 \<le> max_steps tm"
  let ?r = "reset tm input_string"
  have start: "steps ?r = 0" "transition_trace ?r = []" "max_steps ?r = max_steps tm"
    "\<not> halted ?r"
    by (simp_all add: reset_def)
  have acc: "steps (step_calls k ?r) = int (length (transition_trace (step_calls k ?r)))" for k
    using step_calls_accounting [of k ?r] start by simp
  have bound: "steps (step_calls k ?r) \<le> max_steps tm" for k
    using step_calls_bound [of ?r k] start m by simp
  obtain k where k: "fst (run ?r) = step_calls k ?r"
    using run_is_step_calls by blast
  from run_ends_halted [OF reset_in_bounds start(4)] acc [of k] bound [of k] k
    acc [of n] bound [of n]
  show ?thesis by simp
qed

theorem steps_count_the_trace_witness:
  "0 \<le> max_steps (unary_increment ''1'') \<and>
   steps (fst (run (reset (unary_increment ''1'') ''11''))) =
     int (length (transition_trace (fst (run (reset (unary_increment ''1'') ''11''))))) \<and>
   steps (fst (run (reset (unary_increment ''1'') ''11''))) \<le> max_steps (unary_increment ''1'')"
proof -
  have h: "0 \<le> max_steps (unary_increment ''1'')"
    by (simp add: machine_defs)
  from steps_count_the_trace [OF h, of "''11''" 0] h show ?thesis
    by blast
qed

subsection \<open>One verdict for a halted run\<close>




lemma verdicts_overlap:
  "is_accepted tm \<Longrightarrow> is_rejected tm \<Longrightarrow> verdicts_holding tm cause = [Accepted, Rejected]"
  by (simp add: verdicts_holding_def verdict_holds_def)




subsection \<open>The step limit\<close>

text \<open>
  C4, as stated: the machine with the single entry \<^verbatim>\<open>loop_0\<close>, run on \<^verbatim>\<open>0\<close> with a
  limit of 5, halts at the limit after 5 steps. Its second call reads the blank after
  the input, finds no entry for \<^verbatim>\<open>loop__\<close> and halts there: one step, and the verdict
  of a missing transition.
\<close>

theorem one_entry_loop_counterexample:
  "snd (run (loop_zero ''0'' 5)) = None \<and>
   halted (fst (run (loop_zero ''0'' 5))) \<and>
   steps (fst (run (loop_zero ''0'' 5))) = 1 \<and>
   verdict_of (fst (run (loop_zero ''0'' 5))) = StuckNoTransition \<and>
   snd (step (step_calls 1 (loop_zero ''0'' 5))) = Inr (False, NoTransition ''loop'' ''_'')"
proof -
  have "case run (loop_zero ''0'' 5) of (t, e) \<Rightarrow>
          e = None \<and> halted t \<and> steps t = 1 \<and> verdict_of t = StuckNoTransition"
    by (simp add: run.simps machine_defs eval_defs loop_zero_table_def
        verdict_of_def is_accepted_def is_rejected_def)
  moreover
  have "snd (step (step_calls 1 (loop_zero ''0'' 5))) = Inr (False, NoTransition ''loop'' ''_'')"
    by (simp add: machine_defs eval_defs loop_zero_table_def)
  ultimately show ?thesis
    by (simp add: case_prod_beta)
qed

text \<open>
  C4, amended: when the step count has reached the limit, \<^verbatim>\<open>step\<close> sets \<^verbatim>\<open>halted\<close>,
  changes nothing else, reads neither tape nor table, and returns \<^verbatim>\<open>False\<close> with the
  step-limit message; and the machine that loops to the right on \<^verbatim>\<open>0\<close> and on the
  blank, with any reject state but \<^verbatim>\<open>loop\<close>, run on \<^verbatim>\<open>0\<close> with a limit of 5, halts
  after exactly 5 steps with the verdict of the step limit.
\<close>

theorem step_limit_fires_first:
  "(max_steps tm \<le> steps tm \<longrightarrow>
      step tm = (tm\<lparr>halted := True\<rparr>, Inr (False, StepLimitReached (max_steps tm)))) \<and>
   (r \<noteq> ''loop'' \<longrightarrow>
      snd (run (TuringMachine_init sts alphabet ''loop'' ''halt'' r loop_right_table ''0'' 5)) = None \<and>
      halted (fst (run (TuringMachine_init sts alphabet ''loop'' ''halt'' r loop_right_table ''0'' 5))) \<and>
      steps (fst (run (TuringMachine_init sts alphabet ''loop'' ''halt'' r loop_right_table ''0'' 5))) = 5 \<and>
      verdict_of (fst (run (TuringMachine_init sts alphabet ''loop'' ''halt'' r loop_right_table ''0'' 5)))
        = StepLimitExceeded)"
proof (intro conjI impI)
  assume "max_steps tm \<le> steps tm"
  then show "step tm = (tm\<lparr>halted := True\<rparr>, Inr (False, StepLimitReached (max_steps tm)))"
    by (simp add: step_def)
next
  assume r: "r \<noteq> ''loop''"
  let ?m = "TuringMachine_init sts alphabet ''loop'' ''halt'' r loop_right_table ''0'' 5"
  from r have r': "''loop'' \<noteq> r" by blast
  have "case run ?m of (t, e) \<Rightarrow>
          e = None \<and> halted t \<and> steps t = 5 \<and> verdict_of t = StepLimitExceeded"
    using r r'
    by (simp add: run.simps machine_defs eval_defs loop_right_table_def
        verdict_of_def is_accepted_def is_rejected_def)
  then show "snd (run ?m) = None" "halted (fst (run ?m))" "steps (fst (run ?m)) = 5"
    "verdict_of (fst (run ?m)) = StepLimitExceeded"
    by (simp_all add: case_prod_beta)
qed

theorem step_limit_fires_first_witness:
  "max_steps (step_calls 1 (loop_zero ''0'' 1)) \<le> steps (step_calls 1 (loop_zero ''0'' 1)) \<and>
   step (step_calls 1 (loop_zero ''0'' 1)) =
     ((step_calls 1 (loop_zero ''0'' 1))\<lparr>halted := True\<rparr>, Inr (False, StepLimitReached 1)) \<and>
   ''reject'' \<noteq> ''loop'' \<and>
   steps (fst (run (loop_right ''0'' 5))) = 5 \<and>
   verdict_of (fst (run (loop_right ''0'' 5))) = StepLimitExceeded"
proof -
  have h: "max_steps (step_calls 1 (loop_zero ''0'' 1)) \<le> steps (step_calls 1 (loop_zero ''0'' 1))"
    and m: "max_steps (step_calls 1 (loop_zero ''0'' 1)) = 1"
    by (simp_all add: machine_defs eval_defs loop_zero_table_def)
  have r: "''reject'' \<noteq> ''loop''" by simp
  from step_limit_fires_first [of "step_calls 1 (loop_zero ''0'' 1)" "''reject''"
      "[''loop'']" "[''0'', ''1'', ''_'']"] h r
  show ?thesis unfolding loop_right_def m by blast
qed

subsection \<open>A missing transition\<close>

text \<open>
  C5, as stated: in every state that is not halted, a pair of state and symbol with no
  entry makes \<^verbatim>\<open>step\<close> return the no-transition message, and the run is classified as
  stuck. The one-entry loop machine with a limit of 1, after its one step on \<^verbatim>\<open>0\<close>, is
  not halted, stands on a blank in \<^verbatim>\<open>loop\<close>, for which its table has no entry, and is
  in neither the accept nor the reject state; the next call returns the step-limit
  message, and the verdict is that of the step limit.
\<close>

theorem miss_at_the_limit_counterexample:
  "\<not> halted (step_calls 1 (loop_zero ''0'' 1)) \<and>
   tape_get (tape (extend_tape (step_calls 1 (loop_zero ''0'' 1))))
            (head (extend_tape (step_calls 1 (loop_zero ''0'' 1)))) = Inr ''_'' \<and>
   transitions (step_calls 1 (loop_zero ''0'' 1))
     (current_state (step_calls 1 (loop_zero ''0'' 1)) @ ''_'' @ ''_'') = None \<and>
   \<not> is_accepted (step_calls 1 (loop_zero ''0'' 1)) \<and>
   \<not> is_rejected (step_calls 1 (loop_zero ''0'' 1)) \<and>
   snd (step (step_calls 1 (loop_zero ''0'' 1))) = Inr (False, StepLimitReached 1) \<and>
   verdict_of (fst (step (step_calls 1 (loop_zero ''0'' 1)))) = StepLimitExceeded"
  by (simp add: machine_defs eval_defs loop_zero_table_def tape_get_def
      verdict_of_def is_accepted_def is_rejected_def)

text \<open>
  C5, amended: in every state that is not halted and whose step count is below the
  limit, if the key of the current state and the symbol under the head (after the tape
  extension) has no entry, \<^verbatim>\<open>step\<close> raises nothing, sets \<^verbatim>\<open>halted\<close> and returns \<^verbatim>\<open>False\<close>
  with the no-transition message, and the verdict is that of a missing transition unless
  the current state is the accept or the reject state; and the two-entry flip machine,
  with any reject state but \<^verbatim>\<open>q0\<close> and any positive limit, on \<^verbatim>\<open>1\<close>, finds no entry for
  \<^verbatim>\<open>q0\<close> and \<^verbatim>\<open>1\<close> in its first call of \<^verbatim>\<open>step\<close>, which leaves it halted, stuck, with
  no step made and an empty trace.
\<close>

theorem missing_transition_halts:
  "(\<not> halted tm \<longrightarrow> steps tm < max_steps tm \<longrightarrow>
    tape_get (tape (extend_tape tm)) (head (extend_tape tm)) = Inr symbol \<longrightarrow>
    transitions tm (current_state tm @ ''_'' @ symbol) = None \<longrightarrow>
      step tm = ((extend_tape tm)\<lparr>halted := True\<rparr>,
                 Inr (False, NoTransition (current_state tm) symbol)) \<and>
      verdict_of (fst (step tm)) =
        (if is_accepted tm then Accepted else if is_rejected tm then Rejected
         else StuckNoTransition)) \<and>
   (r \<noteq> ''q0'' \<longrightarrow> 0 < maxs \<longrightarrow>
      step (TuringMachine_init sts alphabet ''q0'' ''halt'' r flip_table ''1'' maxs) =
        ((TuringMachine_init sts alphabet ''q0'' ''halt'' r flip_table ''1'' maxs)\<lparr>halted := True\<rparr>,
         Inr (False, NoTransition ''q0'' ''1'')) \<and>
      steps (fst (step (TuringMachine_init sts alphabet ''q0'' ''halt'' r flip_table ''1'' maxs))) = 0 \<and>
      transition_trace
        (fst (step (TuringMachine_init sts alphabet ''q0'' ''halt'' r flip_table ''1'' maxs))) = [] \<and>
      verdict_of (fst (step (TuringMachine_init sts alphabet ''q0'' ''halt'' r flip_table ''1'' maxs)))
        = StuckNoTransition)"
proof (intro conjI impI)
  assume a: "\<not> halted tm" "steps tm < max_steps tm"
    "tape_get (tape (extend_tape tm)) (head (extend_tape tm)) = Inr symbol"
    "transitions tm (current_state tm @ ''_'' @ symbol) = None"
  then show st: "step tm = ((extend_tape tm)\<lparr>halted := True\<rparr>,
                 Inr (False, NoTransition (current_state tm) symbol))"
    by (simp add: step_def transition_phase_def extend_tape_frame)
  from a(2) show "verdict_of (fst (step tm)) =
        (if is_accepted tm then Accepted else if is_rejected tm then Rejected
         else StuckNoTransition)"
    by (simp add: st verdict_of_def is_accepted_def is_rejected_def extend_tape_frame)
next
  assume r: "r \<noteq> ''q0''" and m: "0 < maxs"
  let ?m = "TuringMachine_init sts alphabet ''q0'' ''halt'' r flip_table ''1'' maxs"
  from r have r': "''q0'' \<noteq> r" by blast
  show st: "step ?m = (?m\<lparr>halted := True\<rparr>, Inr (False, NoTransition ''q0'' ''1''))"
    using m by (simp add: machine_defs engine_defs flip_table_def)
  have fields: "steps ?m = 0" "transition_trace ?m = []" "current_state ?m = ''q0''"
    "accept_state ?m = ''halt''" "reject_state ?m = r" "max_steps ?m = maxs"
    by (simp_all add: machine_defs)
  show "steps (fst (step ?m)) = 0" by (simp add: st fields)
  show "transition_trace (fst (step ?m)) = []" by (simp add: st fields)
  show "verdict_of (fst (step ?m)) = StuckNoTransition" using r' m
    by (simp add: st fields verdict_of_def is_accepted_def is_rejected_def)
qed

theorem missing_transition_halts_witness:
  "\<not> halted (step_calls 1 (loop_zero ''0'' 5)) \<and>
   steps (step_calls 1 (loop_zero ''0'' 5)) < max_steps (step_calls 1 (loop_zero ''0'' 5)) \<and>
   tape_get (tape (extend_tape (step_calls 1 (loop_zero ''0'' 5))))
            (head (extend_tape (step_calls 1 (loop_zero ''0'' 5)))) = Inr ''_'' \<and>
   transitions (step_calls 1 (loop_zero ''0'' 5))
     (current_state (step_calls 1 (loop_zero ''0'' 5)) @ ''_'' @ ''_'') = None \<and>
   snd (step (step_calls 1 (loop_zero ''0'' 5))) =
     Inr (False, NoTransition (current_state (step_calls 1 (loop_zero ''0'' 5))) ''_'') \<and>
   ''reject'' \<noteq> ''q0'' \<and> (0 :: int) < 1000 \<and>
   verdict_of (fst (step (TuringMachine_init [''q0'', ''q1'', ''halt''] [''0'', ''1'', ''_'']
                            ''q0'' ''halt'' ''reject'' flip_table ''1'' 1000))) = StuckNoTransition"
proof -
  have h: "\<not> halted (step_calls 1 (loop_zero ''0'' 5))"
    "steps (step_calls 1 (loop_zero ''0'' 5)) < max_steps (step_calls 1 (loop_zero ''0'' 5))"
    "tape_get (tape (extend_tape (step_calls 1 (loop_zero ''0'' 5))))
            (head (extend_tape (step_calls 1 (loop_zero ''0'' 5)))) = Inr ''_''"
    "transitions (step_calls 1 (loop_zero ''0'' 5))
     (current_state (step_calls 1 (loop_zero ''0'' 5)) @ ''_'' @ ''_'') = None"
    by (simp_all add: machine_defs eval_defs loop_zero_table_def tape_get_def)
  have r: "''reject'' \<noteq> ''q0''" "(0 :: int) < 1000" by simp_all
  note t = missing_transition_halts [of "step_calls 1 (loop_zero ''0'' 5)" "''_''" "''reject''"
      1000 "[''q0'', ''q1'', ''halt'']" "[''0'', ''1'', ''_'']"]
  from t h have "step (step_calls 1 (loop_zero ''0'' 5)) =
      ((extend_tape (step_calls 1 (loop_zero ''0'' 5)))\<lparr>halted := True\<rparr>,
       Inr (False, NoTransition (current_state (step_calls 1 (loop_zero ''0'' 5))) ''_''))"
    by blast
  then have "snd (step (step_calls 1 (loop_zero ''0'' 5))) =
      Inr (False, NoTransition (current_state (step_calls 1 (loop_zero ''0'' 5))) ''_'')"
    by (simp only: snd_conv)
  moreover from t r
  have "verdict_of (fst (step (TuringMachine_init [''q0'', ''q1'', ''halt''] [''0'', ''1'', ''_'']
                            ''q0'' ''halt'' ''reject'' flip_table ''1'' 1000))) = StuckNoTransition"
    by blast
  ultimately show ?thesis using h r by blast
qed

text \<open>
  The driver of atc-9.py then fails: it displays the last entry of the trace after the
  call, and the trace is empty.
\<close>

lemma first_miss_display_raises:
  "r \<noteq> ''q0'' \<Longrightarrow> 0 < maxs \<Longrightarrow>
   run (TuringMachine_init sts alphabet ''q0'' ''halt'' r flip_table ''1'' maxs) =
     ((TuringMachine_init sts alphabet ''q0'' ''halt'' r flip_table ''1'' maxs)\<lparr>halted := True\<rparr>,
      Some IndexError)"
proof -
  assume r: "r \<noteq> ''q0''" and m: "0 < maxs"
  let ?m = "TuringMachine_init sts alphabet ''q0'' ''halt'' r flip_table ''1'' maxs"
  have st: "step ?m = (?m\<lparr>halted := True\<rparr>, Inr (False, NoTransition ''q0'' ''1''))"
    using m by (simp add: machine_defs engine_defs flip_table_def)
  have "\<not> halted ?m" "transition_trace ?m = []"
    by (simp_all add: machine_defs)
  then show ?thesis
    by (subst run.simps) (simp add: st trace_get_last)
qed

subsection \<open>Tape growth\<close>

lemma transition_phase_tape:
  assumes "0 \<le> head tm"
  shows "\<exists>w. tape (fst (transition_phase tm)) =
     (if head tm < int (length (tape tm)) then (tape tm)[nat (head tm) := w] else tape tm)"
proof (cases "head tm < int (length (tape tm))")
  case True
  let ?sym = "tape tm ! nat (head tm)"
  show ?thesis
  proof (cases "transitions tm (current_state tm @ ''_'' @ ?sym)")
    case None
    with True assms have "tape (fst (transition_phase tm)) = (tape tm)[nat (head tm) := ?sym]"
      by (simp add: transition_phase_in_range)
    with True show ?thesis by (intro exI [of _ ?sym]) (simp only: if_True)
  next
    case (Some qwd)
    obtain q w d where "qwd = (q, w, d)" by (cases qwd)
    with Some True assms have "tape (fst (transition_phase tm)) = (tape tm)[nat (head tm) := w]"
      by (simp add: transition_phase_in_range)
    with True show ?thesis by auto
  qed
next
  case False
  with assms have "tape_get (tape tm) (head tm) = Inl IndexError"
    by (simp add: tape_get_def)
  then show ?thesis using False by (simp add: transition_phase_def)
qed

text \<open>
  The machine of atc-5.py that moves right on a blank, on the empty input: its first 50
  steps cross the 50 blanks of the tape.
\<close>

lemma step_calls_Suc_right: "step_calls (Suc n) tm = fst (step (step_calls n tm))"
  by (induction n arbitrary: tm) simp_all

lemma update_blank_by_blank: "(replicate k b)[i := b] = replicate k b"
  by (cases "i < k") (simp_all add: list_update_same_conv list_update_beyond)

lemma loop_right_on_blanks:
  "n \<le> 50 \<Longrightarrow>
   step_calls n (loop_right '''' 1000) =
     (loop_right '''' 1000)\<lparr>head := int n, steps := int n,
        transition_trace := replicate n (''loop'', ''_'', ''loop'', ''_'', ''R'')\<rparr>"
proof (induction n)
  case 0
  show ?case by (simp add: machine_defs)
next
  case (Suc n)
  then have n: "n < 50" and IH: "step_calls n (loop_right '''' 1000) =
     (loop_right '''' 1000)\<lparr>head := int n, steps := int n,
        transition_trace := replicate n (''loop'', ''_'', ''loop'', ''_'', ''R'')\<rparr>"
    by simp_all
  show ?case
    unfolding step_calls_Suc_right IH using n
    by (simp add: machine_defs step_def extend_tape_def transition_phase_in_range
        loop_right_table_def update_blank_by_blank replicate_append_same)
qed

text \<open>
  C6, as stated: in every state whose head is beyond an end of the tape, the next call
  of \<^verbatim>\<open>step\<close> adds a cell at that end. The machine of atc-3.py that moves left on a
  blank, with a limit of 1 and the empty input, has its head at \<open>-1\<close> after one step;
  the next call is stopped by the step limit and leaves the tape and the head as they
  are.
\<close>

theorem no_extension_at_the_limit_counterexample:
  "head (step_calls 1 (loop_left '''' 1)) = - 1 \<and>
   length (tape (step_calls 1 (loop_left '''' 1))) = 50 \<and>
   snd (step (step_calls 1 (loop_left '''' 1))) = Inr (False, StepLimitReached 1) \<and>
   tape (fst (step (step_calls 1 (loop_left '''' 1)))) = tape (step_calls 1 (loop_left '''' 1)) \<and>
   head (fst (step (step_calls 1 (loop_left '''' 1)))) = - 1"
  by (simp add: machine_defs eval_defs loop_left_table_def)

text \<open>
  C6, amended: in every state that is not halted and whose step count is below the limit,
  a head at or beyond the right end makes the call append one blank, after which the
  tape is the old tape with one cell more at its right end; a negative head makes the
  call put one blank in front and set the head to 0, after which the tape is the old tape
  with one cell more at its left end, every old symbol one index higher as the head is;
  and a head on the tape leaves the length of the tape as it is.
\<close>

theorem tape_grows_by_one_cell:
  "\<not> halted tm \<Longrightarrow> steps tm < max_steps tm \<Longrightarrow>
   (int (length (tape tm)) \<le> head tm \<longrightarrow>
      extend_tape tm = tm\<lparr>tape := tape tm @ [''_'']\<rparr> \<and>
      length (tape (fst (step tm))) = length (tape tm) + 1 \<and>
      butlast (tape (fst (step tm))) = tape tm) \<and>
   (head tm < 0 \<longrightarrow>
      extend_tape tm = tm\<lparr>tape := ''_'' # tape tm, head := 0\<rparr> \<and>
      length (tape (fst (step tm))) = length (tape tm) + 1 \<and>
      tl (tape (fst (step tm))) = tape tm) \<and>
   (0 \<le> head tm \<and> head tm < int (length (tape tm)) \<longrightarrow>
      extend_tape tm = tm \<and>
      length (tape (fst (step tm))) = length (tape tm))"
proof (intro conjI impI)
  assume a: "\<not> halted tm" "steps tm < max_steps tm"
  then have st: "step tm = transition_phase (extend_tape tm)"
    by (simp add: step_def)
  { assume h: "int (length (tape tm)) \<le> head tm"
    let ?e = "tm\<lparr>tape := tape tm @ [''_'']\<rparr>"
    from h show e: "extend_tape tm = ?e"
      by (simp add: extend_tape_def)
    from h have "0 \<le> head ?e" by simp
    from transition_phase_tape [OF this]
    obtain w where "tape (fst (step tm)) =
        (if head ?e < int (length (tape ?e)) then (tape ?e)[nat (head ?e) := w] else tape ?e)"
      unfolding st e by blast
    with h have "tape (fst (step tm)) = tape tm @ [w] \<or> tape (fst (step tm)) = tape tm @ [''_'']"
      by (cases "head tm = int (length (tape tm))") simp_all
    then show "length (tape (fst (step tm))) = length (tape tm) + 1"
      "butlast (tape (fst (step tm))) = tape tm" by auto }
  { assume h: "head tm < 0"
    let ?e = "tm\<lparr>tape := ''_'' # tape tm, head := 0\<rparr>"
    from h show e: "extend_tape tm = ?e"
      by (simp add: extend_tape_def)
    have "0 \<le> head ?e" by simp
    from transition_phase_tape [OF this]
    obtain w where "tape (fst (step tm)) =
        (if head ?e < int (length (tape ?e)) then (tape ?e)[nat (head ?e) := w] else tape ?e)"
      unfolding st e by blast
    then have "tape (fst (step tm)) = w # tape tm" by simp
    then show "length (tape (fst (step tm))) = length (tape tm) + 1"
      "tl (tape (fst (step tm))) = tape tm" by simp_all }
  { assume h: "0 \<le> head tm \<and> head tm < int (length (tape tm))"
    then show e: "extend_tape tm = tm"
      by (simp add: extend_tape_def)
    from h transition_phase_tape [of tm]
    show "length (tape (fst (step tm))) = length (tape tm)"
      by (auto simp: st e) }
qed

theorem tape_grows_by_one_cell_witness:
  "\<not> halted (step_calls 1 (loop_left '''' 1000)) \<and>
   steps (step_calls 1 (loop_left '''' 1000)) < max_steps (step_calls 1 (loop_left '''' 1000)) \<and>
   head (step_calls 1 (loop_left '''' 1000)) < 0 \<and>
   tl (tape (fst (step (step_calls 1 (loop_left '''' 1000))))) =
     tape (step_calls 1 (loop_left '''' 1000)) \<and>
   \<not> halted (step_calls 50 (loop_right '''' 1000)) \<and>
   steps (step_calls 50 (loop_right '''' 1000)) < max_steps (step_calls 50 (loop_right '''' 1000)) \<and>
   int (length (tape (step_calls 50 (loop_right '''' 1000)))) \<le> head (step_calls 50 (loop_right '''' 1000)) \<and>
   butlast (tape (fst (step (step_calls 50 (loop_right '''' 1000))))) =
     tape (step_calls 50 (loop_right '''' 1000))"
proof -
  have l: "\<not> halted (step_calls 1 (loop_left '''' 1000))"
    "steps (step_calls 1 (loop_left '''' 1000)) < max_steps (step_calls 1 (loop_left '''' 1000))"
    "head (step_calls 1 (loop_left '''' 1000)) < 0"
    by (simp_all add: machine_defs eval_defs loop_left_table_def)
  have r: "\<not> halted (step_calls 50 (loop_right '''' 1000))"
    "steps (step_calls 50 (loop_right '''' 1000)) < max_steps (step_calls 50 (loop_right '''' 1000))"
    "int (length (tape (step_calls 50 (loop_right '''' 1000)))) \<le> head (step_calls 50 (loop_right '''' 1000))"
    by (simp_all add: loop_right_on_blanks) (simp_all add: machine_defs)
  from tape_grows_by_one_cell [OF l(1,2)] tape_grows_by_one_cell [OF r(1,2)] l r
  show ?thesis by blast
qed

subsection \<open>What a missing transition leaves unchanged\<close>

text \<open>
  C10, as stated: when the lookup misses, the head is exactly as before the call. The
  machine whose one entry moves left from the first cell has its head at \<open>-1\<close> after one
  step on \<^verbatim>\<open>0\<close>; the next call puts a blank in front, sets the head to 0, finds no
  entry for \<^verbatim>\<open>q1\<close> and the blank and halts: the head has changed from \<open>-1\<close> to 0.
\<close>

theorem head_reindexed_counterexample:
  "snd (step (step_calls 1 (left_then_stuck ''0''))) = Inr (False, NoTransition ''q1'' ''_'') \<and>
   head (step_calls 1 (left_then_stuck ''0'')) = - 1 \<and>
   head (fst (step (step_calls 1 (left_then_stuck ''0'')))) = 0"
  by (simp add: machine_defs eval_defs left_then_stuck_table_def)

text \<open>
  C10, amended: when the call reaches the lookup and the lookup misses, the object
  after the call is the object before it with \<^verbatim>\<open>halted\<close> set, with one blank added
  at the right end if the head was at or beyond it, and with one blank added in front
  and the head set to 0 if the head was negative; the head is unchanged otherwise, and
  the current state, the step count, the trace and every symbol of the tape are as
  before the call.
\<close>

theorem miss_changes_only_halted:
  "\<not> halted tm \<Longrightarrow> steps tm < max_steps tm \<Longrightarrow>
   tape_get (tape (extend_tape tm)) (head (extend_tape tm)) = Inr symbol \<Longrightarrow>
   transitions tm (current_state tm @ ''_'' @ symbol) = None \<Longrightarrow>
   fst (step tm) =
     tm\<lparr>tape := (if head tm < 0 then ''_'' # tape tm
                  else if int (length (tape tm)) \<le> head tm then tape tm @ [''_'']
                  else tape tm),
        head := (if head tm < 0 then 0 else head tm),
        halted := True\<rparr> \<and>
   current_state (fst (step tm)) = current_state tm \<and>
   steps (fst (step tm)) = steps tm \<and>
   transition_trace (fst (step tm)) = transition_trace tm \<and>
   halted (fst (step tm))"
proof -
  assume a: "\<not> halted tm" "steps tm < max_steps tm"
    "tape_get (tape (extend_tape tm)) (head (extend_tape tm)) = Inr symbol"
    "transitions tm (current_state tm @ ''_'' @ symbol) = None"
  then have st: "fst (step tm) = (extend_tape tm)\<lparr>halted := True\<rparr>"
    by (simp add: step_def transition_phase_def extend_tape_frame)
  have "extend_tape tm =
     tm\<lparr>tape := (if head tm < 0 then ''_'' # tape tm
                  else if int (length (tape tm)) \<le> head tm then tape tm @ [''_'']
                  else tape tm),
        head := (if head tm < 0 then 0 else head tm)\<rparr>"
    by (simp add: extend_tape_def Let_def)
  with st show ?thesis by (simp add: extend_tape_frame)
qed

theorem miss_changes_only_halted_witness:
  "\<not> halted (step_calls 1 (left_then_stuck ''0'')) \<and>
   steps (step_calls 1 (left_then_stuck ''0'')) < max_steps (step_calls 1 (left_then_stuck ''0'')) \<and>
   tape_get (tape (extend_tape (step_calls 1 (left_then_stuck ''0''))))
            (head (extend_tape (step_calls 1 (left_then_stuck ''0'')))) = Inr ''_'' \<and>
   transitions (step_calls 1 (left_then_stuck ''0''))
     (current_state (step_calls 1 (left_then_stuck ''0'')) @ ''_'' @ ''_'') = None \<and>
   steps (fst (step (step_calls 1 (left_then_stuck ''0'')))) = steps (step_calls 1 (left_then_stuck ''0'')) \<and>
   halted (fst (step (step_calls 1 (left_then_stuck ''0''))))"
proof -
  have h: "\<not> halted (step_calls 1 (left_then_stuck ''0''))"
    "steps (step_calls 1 (left_then_stuck ''0'')) < max_steps (step_calls 1 (left_then_stuck ''0''))"
    "tape_get (tape (extend_tape (step_calls 1 (left_then_stuck ''0''))))
            (head (extend_tape (step_calls 1 (left_then_stuck ''0'')))) = Inr ''_''"
    "transitions (step_calls 1 (left_then_stuck ''0''))
     (current_state (step_calls 1 (left_then_stuck ''0'')) @ ''_'' @ ''_'') = None"
    by (simp_all add: machine_defs eval_defs left_then_stuck_table_def tape_get_def)
  from miss_changes_only_halted [OF h] h show ?thesis by blast
qed

subsection \<open>The flip machine on 0\<close>

lemma dropWhile_blanks:
  "dropWhile (\<lambda>c. c = CHR ''_'') (replicate n (CHR ''_'') @ t) = dropWhile (\<lambda>c. c = CHR ''_'') t"
  by (induction n) simp_all

lemma strip_underscore_trailing:
  "c \<noteq> CHR ''_'' \<Longrightarrow>
   strip_underscore (c # s @ replicate n (CHR ''_'')) = strip_underscore (c # s)"
  by (simp add: strip_underscore_def dropWhile_blanks)

lemma strip_one: "strip_underscore (CHR ''1'' # replicate n (CHR ''_'')) = ''1''"
  using strip_underscore_trailing [of "CHR ''1''" "[]" n]
  by (simp add: strip_underscore_def)

lemmas eval_atc6_defs = step_atc6_def Let_def transition_phase_in_range nth_append

text \<open>
  C8. With \<^verbatim>\<open>step\<close> of atc-6.py, every machine that starts in \<^verbatim>\<open>q0\<close>, accepts in
  \<^verbatim>\<open>halt\<close>, has a reject state other than \<^verbatim>\<open>q1\<close>, a step limit of at least 2, and a
  table with the two entries \<^verbatim>\<open>q0_0\<close> to \<^verbatim>\<open>(q1, 1, R)\<close> and \<^verbatim>\<open>q1__\<close> to
  \<^verbatim>\<open>(halt, _, N)\<close>, run on \<^verbatim>\<open>0\<close>, ends without an exception, halted, after exactly 2
  steps, those two transitions, with the verdict accepted and the tape, joined and
  stripped of blanks at both ends, equal to \<^verbatim>\<open>1\<close>. The two-entry table of the claim
  and the three-entry ``Flip 0 to 1'' of atc-6.py are such machines.
\<close>

theorem flip_zero_accepted:
  "table ''q0_0'' = Some (''q1'', ''1'', ''R'') \<Longrightarrow>
   table ''q1__'' = Some (''halt'', ''_'', ''N'') \<Longrightarrow>
   r \<noteq> ''q1'' \<Longrightarrow> 2 \<le> maxs \<Longrightarrow>
   snd (run_atc6 (TuringMachine_init sts alphabet ''q0'' ''halt'' r table ''0'' maxs)) = None \<and>
   halted (fst (run_atc6 (TuringMachine_init sts alphabet ''q0'' ''halt'' r table ''0'' maxs))) \<and>
   steps (fst (run_atc6 (TuringMachine_init sts alphabet ''q0'' ''halt'' r table ''0'' maxs))) = 2 \<and>
   transition_trace (fst (run_atc6 (TuringMachine_init sts alphabet ''q0'' ''halt'' r table ''0'' maxs))) =
     [(''q0'', ''0'', ''q1'', ''1'', ''R''), (''q1'', ''_'', ''halt'', ''_'', ''N'')] \<and>
   verdict_of (fst (run_atc6 (TuringMachine_init sts alphabet ''q0'' ''halt'' r table ''0'' maxs))) = Accepted \<and>
   strip_underscore (concat (tape (fst (run_atc6
     (TuringMachine_init sts alphabet ''q0'' ''halt'' r table ''0'' maxs))))) = ''1''"
proof -
  assume t: "table ''q0_0'' = Some (''q1'', ''1'', ''R'')" "table ''q1__'' = Some (''halt'', ''_'', ''N'')"
    and r: "r \<noteq> ''q1''" and m: "2 \<le> maxs"
  let ?m = "TuringMachine_init sts alphabet ''q0'' ''halt'' r table ''0'' maxs"
  from r have r': "''q1'' \<noteq> r" by blast
  have "case run_atc6 ?m of (tm, e) \<Rightarrow>
      e = None \<and> halted tm \<and> steps tm = 2 \<and>
      transition_trace tm = [(''q0'', ''0'', ''q1'', ''1'', ''R''), (''q1'', ''_'', ''halt'', ''_'', ''N'')] \<and>
      verdict_of tm = Accepted \<and>
      tape tm = ''1'' # replicate 50 ''_''"
    using t r r' m
    by (simp add: run_atc6.simps machine_defs eval_atc6_defs verdict_of_def is_accepted_def
        update_blank_by_blank)
  then show ?thesis
    by (auto simp: case_prod_beta strip_one)
qed

theorem flip_zero_accepted_witness:
  "flip_table_atc6 ''q0_0'' = Some (''q1'', ''1'', ''R'') \<and>
   flip_table_atc6 ''q1__'' = Some (''halt'', ''_'', ''N'') \<and>
   ''reject'' \<noteq> ''q1'' \<and> (2 :: int) \<le> 1000 \<and>
   steps (fst (run_atc6 (flip_atc6 ''0''))) = 2 \<and>
   verdict_of (fst (run_atc6 (flip_atc6 ''0''))) = Accepted \<and>
   strip_underscore (concat (tape (fst (run_atc6 (flip_atc6 ''0''))))) = ''1''"
proof -
  have h: "flip_table_atc6 ''q0_0'' = Some (''q1'', ''1'', ''R'')"
    "flip_table_atc6 ''q1__'' = Some (''halt'', ''_'', ''N'')"
    "''reject'' \<noteq> ''q1''" "(2 :: int) \<le> 1000"
    by (simp_all add: flip_table_atc6_def)
  from flip_zero_accepted [OF h, of "[''q0'', ''q1'', ''halt'', ''reject'']" "[''0'', ''1'', ''_'']"] h
  show ?thesis unfolding flip_atc6_def by blast
qed

end
